theory Spec2Isabelle
  imports Complex_Main "HOL-Library.Word"
begin

section \<open>Values, failures and the binary reader\<close>

text \<open>
  The two loaders (\<^verbatim>\<open>MDLFileLoader.importMesh\<close> for the model format and
  \<^verbatim>\<open>BSPFileLoader.importMesh\<close> for the level format) read a byte buffer through a
  \<^verbatim>\<open>BinaryReader\<close> and build typed arrays. Integers read from the file are HOL
  integers (a JavaScript number holds every 32-bit integer exactly). A number that
  takes part in floating-point arithmetic is a \<open>number\<close>: a finite value, modelled as
  an exact real (the rounding of IEEE doubles and of stores into a
  \<^verbatim>\<open>Float32Array\<close> is not modelled), or \<open>NonFinite\<close>, which stands for NaN
  and both infinities. The collapse is sound for this code: its arithmetic is
  addition, multiplication and division by a finite divisor, and none of them maps
  a non-finite operand to a finite result. Memory is not bounded: an array of any
  length that is not negative can be allocated. A \<^verbatim>\<open>Uint32Array\<close> view on the
  buffer reads little-endian, as on the platforms the viewer runs on. The objects
  of the rendering engine (meshes, materials, textures, morph targets) are records
  of the data the loaders hand to them, and their constructors do not throw.
\<close>

type_synonym byte = "8 word"

datatype number = Fin real | NonFinite

fun num_add :: "number \<Rightarrow> number \<Rightarrow> number" where
  "num_add (Fin a) (Fin b) = Fin (a + b)"
| "num_add _ _ = NonFinite"

fun num_mul :: "number \<Rightarrow> number \<Rightarrow> number" where
  "num_mul (Fin a) (Fin b) = Fin (a * b)"
| "num_mul _ _ = NonFinite"

fun num_div :: "number \<Rightarrow> number \<Rightarrow> number" where
  "num_div (Fin a) (Fin b) = (if b = 0 then NonFinite else Fin (a / b))"
| "num_div _ _ = NonFinite"

fun num_neg :: "number \<Rightarrow> number" where
  "num_neg (Fin a) = Fin (- a)"
| "num_neg NonFinite = NonFinite"

text \<open>
  How a call of \<^verbatim>\<open>importMesh\<close> can end without returning \<^verbatim>\<open>true\<close>: an uncaught
  \<^verbatim>\<open>RangeError\<close> (a \<^verbatim>\<open>DataView\<close> read outside the buffer, a typed-array view
  outside the buffer, an array of negative length), an uncaught \<^verbatim>\<open>TypeError\<close>
  (a property of \<^verbatim>\<open>undefined\<close> or \<^verbatim>\<open>null\<close>), or \<^verbatim>\<open>window.alert(msg); return false\<close>.
  The three alerts of the source are:
  \<^item> \<open>NotMDL\<close>: "Not a Quake MDL or wrong MDL version.";
  \<^item> \<open>GroupSkin index\<close>: "Skin index is a group skin, which we don't support yet.";
  \<^item> \<open>NotBSP\<close>: "Not a Quake BSP or wrong MDL version.".
\<close>

datatype alert = NotMDL | GroupSkin nat | NotBSP

datatype error = RangeError | TypeError | Alerted alert

definition andThen :: "error + 'a \<Rightarrow> ('a \<Rightarrow> error + 'b) \<Rightarrow> error + 'b" where
  "andThen m f = (case m of Inl e \<Rightarrow> Inl e | Inr x \<Rightarrow> f x)"

subsection \<open>BinaryReader\<close>

record BinaryReader =
  arrayBuffer :: "byte list"
  byteOffset :: int

definition newBinaryReader :: "byte list \<Rightarrow> BinaryReader" where
  "newBinaryReader data = \<lparr>arrayBuffer = data, byteOffset = 0\<rparr>"

text \<open>
  \<^verbatim>\<open>DataView.getXxx(byteOffset)\<close> throws a RangeError when the offset is negative
  or the value does not lie inside the buffer. The reader itself checks nothing.
\<close>

definition inView :: "BinaryReader \<Rightarrow> int \<Rightarrow> bool" where
  "inView r n = (0 \<le> byteOffset r \<and> byteOffset r + n \<le> int (length (arrayBuffer r)))"

definition getByte :: "BinaryReader \<Rightarrow> int \<Rightarrow> int" where
  "getByte r k = uint (arrayBuffer r ! nat (byteOffset r + k))"

definition getUint16 :: "BinaryReader \<Rightarrow> int" where
  "getUint16 r = getByte r 0 + 256 * getByte r 1"

definition getUint32 :: "BinaryReader \<Rightarrow> int" where
  "getUint32 r = getByte r 0 + 256 * getByte r 1 + 65536 * getByte r 2 + 16777216 * getByte r 3"

definition toInt16 :: "int \<Rightarrow> int" where
  "toInt16 u = (if u < 32768 then u else u - 65536)"

definition toInt32 :: "int \<Rightarrow> int" where
  "toInt32 u = (if u < 2147483648 then u else u - 4294967296)"

text \<open>Storing an integer into a \<^verbatim>\<open>Uint32Array\<close> keeps it modulo \<open>2^32\<close>.\<close>

definition toUint32 :: "int \<Rightarrow> int" where
  "toUint32 x = x mod 4294967296"

text \<open>
  The value of an IEEE 754 binary32 bit pattern (\<^verbatim>\<open>DataView.getFloat32\<close>), given as
  the little-endian unsigned integer of its four bytes.
\<close>

definition float32_value :: "int \<Rightarrow> number" where
  "float32_value u =
     (let sign = (if u div 2147483648 = 1 then - 1 else 1 :: real);
          e = nat ((u div 8388608) mod 256);
          m = u mod 8388608
      in if e = 255 then NonFinite
         else if e = 0 then Fin (sign * of_int m / 2 ^ 149)
         else if 150 \<le> e then Fin (sign * of_int (8388608 + m) * 2 ^ (e - 150))
         else Fin (sign * of_int (8388608 + m) / 2 ^ (150 - e)))"

definition skipBytes :: "BinaryReader \<Rightarrow> int \<Rightarrow> BinaryReader" where
  "skipBytes r n = r\<lparr>byteOffset := byteOffset r + n\<rparr>"

definition seekBytes :: "BinaryReader \<Rightarrow> int \<Rightarrow> BinaryReader" where
  "seekBytes r offset = r\<lparr>byteOffset := offset\<rparr>"

definition readUint8 :: "BinaryReader \<Rightarrow> error + int \<times> BinaryReader" where
  "readUint8 r = (if inView r 1 then Inr (getByte r 0, skipBytes r 1) else Inl RangeError)"

definition readInt16 :: "BinaryReader \<Rightarrow> error + int \<times> BinaryReader" where
  "readInt16 r = (if inView r 2 then Inr (toInt16 (getUint16 r), skipBytes r 2) else Inl RangeError)"

definition readUint16 :: "BinaryReader \<Rightarrow> error + int \<times> BinaryReader" where
  "readUint16 r = (if inView r 2 then Inr (getUint16 r, skipBytes r 2) else Inl RangeError)"

definition readInt32 :: "BinaryReader \<Rightarrow> error + int \<times> BinaryReader" where
  "readInt32 r = (if inView r 4 then Inr (toInt32 (getUint32 r), skipBytes r 4) else Inl RangeError)"

definition readUint32 :: "BinaryReader \<Rightarrow> error + int \<times> BinaryReader" where
  "readUint32 r = (if inView r 4 then Inr (getUint32 r, skipBytes r 4) else Inl RangeError)"

definition readFloat32 :: "BinaryReader \<Rightarrow> error + number \<times> BinaryReader" where
  "readFloat32 r =
     (if inView r 4 then Inr (float32_value (getUint32 r), skipBytes r 4) else Inl RangeError)"

type_synonym Vector3 = "number \<times> number \<times> number"

text \<open>\<^verbatim>\<open>new Vector3(r.readFloat32(), r.readFloat32(), r.readFloat32())\<close>, arguments left to right.\<close>

definition readVector3 :: "BinaryReader \<Rightarrow> error + Vector3 \<times> BinaryReader" where
  "readVector3 r0 =
     andThen (readFloat32 r0) (\<lambda>(x, r).
     andThen (readFloat32 r) (\<lambda>(y, r).
     andThen (readFloat32 r) (\<lambda>(z, r).
     Inr ((x, y, z), r))))"

subsection \<open>The fixed tables\<close>

definition anormals :: "(real \<times> real \<times> real) list" where
  "anormals = [
    (-0.525731, 0.000000, 0.850651),
    (-0.442863, 0.238856, 0.864188),
    (-0.295242, 0.000000, 0.955423),
    (-0.309017, 0.500000, 0.809017),
    (-0.162460, 0.262866, 0.951056),
    (0.000000, 0.000000, 1.000000),
    (0.000000, 0.850651, 0.525731),
    (-0.147621, 0.716567, 0.681718),
    (0.147621, 0.716567, 0.681718),
    (0.000000, 0.525731, 0.850651),
    (0.309017, 0.500000, 0.809017),
    (0.525731, 0.000000, 0.850651),
    (0.295242, 0.000000, 0.955423),
    (0.442863, 0.238856, 0.864188),
    (0.162460, 0.262866, 0.951056),
    (-0.681718, 0.147621, 0.716567),
    (-0.809017, 0.309017, 0.500000),
    (-0.587785, 0.425325, 0.688191),
    (-0.850651, 0.525731, 0.000000),
    (-0.864188, 0.442863, 0.238856),
    (-0.716567, 0.681718, 0.147621),
    (-0.688191, 0.587785, 0.425325),
    (-0.500000, 0.809017, 0.309017),
    (-0.238856, 0.864188, 0.442863),
    (-0.425325, 0.688191, 0.587785),
    (-0.716567, 0.681718, -0.147621),
    (-0.500000, 0.809017, -0.309017),
    (-0.525731, 0.850651, 0.000000),
    (0.000000, 0.850651, -0.525731),
    (-0.238856, 0.864188, -0.442863),
    (0.000000, 0.955423, -0.295242),
    (-0.262866, 0.951056, -0.162460),
    (0.000000, 1.000000, 0.000000),
    (0.000000, 0.955423, 0.295242),
    (-0.262866, 0.951056, 0.162460),
    (0.238856, 0.864188, 0.442863),
    (0.262866, 0.951056, 0.162460),
    (0.500000, 0.809017, 0.309017),
    (0.238856, 0.864188, -0.442863),
    (0.262866, 0.951056, -0.162460),
    (0.500000, 0.809017, -0.309017),
    (0.850651, 0.525731, 0.000000),
    (0.716567, 0.681718, 0.147621),
    (0.716567, 0.681718, -0.147621),
    (0.525731, 0.850651, 0.000000),
    (0.425325, 0.688191, 0.587785),
    (0.864188, 0.442863, 0.238856),
    (0.688191, 0.587785, 0.425325),
    (0.809017, 0.309017, 0.500000),
    (0.681718, 0.147621, 0.716567),
    (0.587785, 0.425325, 0.688191),
    (0.955423, 0.295242, 0.000000),
    (1.000000, 0.000000, 0.000000),
    (0.951056, 0.162460, 0.262866),
    (0.850651, -0.525731, 0.000000),
    (0.955423, -0.295242, 0.000000),
    (0.864188, -0.442863, 0.238856),
    (0.951056, -0.162460, 0.262866),
    (0.809017, -0.309017, 0.500000),
    (0.681718, -0.147621, 0.716567),
    (0.850651, 0.000000, 0.525731),
    (0.864188, 0.442863, -0.238856),
    (0.809017, 0.309017, -0.500000),
    (0.951056, 0.162460, -0.262866),
    (0.525731, 0.000000, -0.850651),
    (0.681718, 0.147621, -0.716567),
    (0.681718, -0.147621, -0.716567),
    (0.850651, 0.000000, -0.525731),
    (0.809017, -0.309017, -0.500000),
    (0.864188, -0.442863, -0.238856),
    (0.951056, -0.162460, -0.262866),
    (0.147621, 0.716567, -0.681718),
    (0.309017, 0.500000, -0.809017),
    (0.425325, 0.688191, -0.587785),
    (0.442863, 0.238856, -0.864188),
    (0.587785, 0.425325, -0.688191),
    (0.688191, 0.587785, -0.425325),
    (-0.147621, 0.716567, -0.681718),
    (-0.309017, 0.500000, -0.809017),
    (0.000000, 0.525731, -0.850651),
    (-0.525731, 0.000000, -0.850651),
    (-0.442863, 0.238856, -0.864188),
    (-0.295242, 0.000000, -0.955423),
    (-0.162460, 0.262866, -0.951056),
    (0.000000, 0.000000, -1.000000),
    (0.295242, 0.000000, -0.955423),
    (0.162460, 0.262866, -0.951056),
    (-0.442863, -0.238856, -0.864188),
    (-0.309017, -0.500000, -0.809017),
    (-0.162460, -0.262866, -0.951056),
    (0.000000, -0.850651, -0.525731),
    (-0.147621, -0.716567, -0.681718),
    (0.147621, -0.716567, -0.681718),
    (0.000000, -0.525731, -0.850651),
    (0.309017, -0.500000, -0.809017),
    (0.442863, -0.238856, -0.864188),
    (0.162460, -0.262866, -0.951056),
    (0.238856, -0.864188, -0.442863),
    (0.500000, -0.809017, -0.309017),
    (0.425325, -0.688191, -0.587785),
    (0.716567, -0.681718, -0.147621),
    (0.688191, -0.587785, -0.425325),
    (0.587785, -0.425325, -0.688191),
    (0.000000, -0.955423, -0.295242),
    (0.000000, -1.000000, 0.000000),
    (0.262866, -0.951056, -0.162460),
    (0.000000, -0.850651, 0.525731),
    (0.000000, -0.955423, 0.295242),
    (0.238856, -0.864188, 0.442863),
    (0.262866, -0.951056, 0.162460),
    (0.500000, -0.809017, 0.309017),
    (0.716567, -0.681718, 0.147621),
    (0.525731, -0.850651, 0.000000),
    (-0.238856, -0.864188, -0.442863),
    (-0.500000, -0.809017, -0.309017),
    (-0.262866, -0.951056, -0.162460),
    (-0.850651, -0.525731, 0.000000),
    (-0.716567, -0.681718, -0.147621),
    (-0.716567, -0.681718, 0.147621),
    (-0.525731, -0.850651, 0.000000),
    (-0.500000, -0.809017, 0.309017),
    (-0.238856, -0.864188, 0.442863),
    (-0.262866, -0.951056, 0.162460),
    (-0.864188, -0.442863, 0.238856),
    (-0.809017, -0.309017, 0.500000),
    (-0.688191, -0.587785, 0.425325),
    (-0.681718, -0.147621, 0.716567),
    (-0.442863, -0.238856, 0.864188),
    (-0.587785, -0.425325, 0.688191),
    (-0.309017, -0.500000, 0.809017),
    (-0.147621, -0.716567, 0.681718),
    (-0.425325, -0.688191, 0.587785),
    (-0.162460, -0.262866, 0.951056),
    (0.442863, -0.238856, 0.864188),
    (0.162460, -0.262866, 0.951056),
    (0.309017, -0.500000, 0.809017),
    (0.147621, -0.716567, 0.681718),
    (0.000000, -0.525731, 0.850651),
    (0.425325, -0.688191, 0.587785),
    (0.587785, -0.425325, 0.688191),
    (0.688191, -0.587785, 0.425325),
    (-0.955423, 0.295242, 0.000000),
    (-0.951056, 0.162460, 0.262866),
    (-1.000000, 0.000000, 0.000000),
    (-0.850651, 0.000000, 0.525731),
    (-0.955423, -0.295242, 0.000000),
    (-0.951056, -0.162460, 0.262866),
    (-0.864188, 0.442863, -0.238856),
    (-0.951056, 0.162460, -0.262866),
    (-0.809017, 0.309017, -0.500000),
    (-0.864188, -0.442863, -0.238856),
    (-0.951056, -0.162460, -0.262866),
    (-0.809017, -0.309017, -0.500000),
    (-0.681718, 0.147621, -0.716567),
    (-0.681718, -0.147621, -0.716567),
    (-0.850651, 0.000000, -0.525731),
    (-0.688191, 0.587785, -0.425325),
    (-0.587785, 0.425325, -0.688191),
    (-0.425325, 0.688191, -0.587785),
    (-0.425325, -0.688191, -0.587785),
    (-0.587785, -0.425325, -0.688191),
    (-0.688191, -0.587785, -0.425325)
  ]"

definition colorMap :: "int list list" where
  "colorMap = [
    [0, 0, 0], [15, 15, 15], [31, 31, 31], [47, 47, 47],
    [63, 63, 63], [75, 75, 75], [91, 91, 91], [107, 107, 107],
    [123, 123, 123], [139, 139, 139], [155, 155, 155], [171, 171, 171],
    [187, 187, 187], [203, 203, 203], [219, 219, 219], [235, 235, 235],
    [15, 11, 7], [23, 15, 11], [31, 23, 11], [39, 27, 15],
    [47, 35, 19], [55, 43, 23], [63, 47, 23], [75, 55, 27],
    [83, 59, 27], [91, 67, 31], [99, 75, 31], [107, 83, 31],
    [115, 87, 31], [123, 95, 35], [131, 103, 35], [143, 111, 35],
    [11, 11, 15], [19, 19, 27], [27, 27, 39], [39, 39, 51],
    [47, 47, 63], [55, 55, 75], [63, 63, 87], [71, 71, 103],
    [79, 79, 115], [91, 91, 127], [99, 99, 139], [107, 107, 151],
    [115, 115, 163], [123, 123, 175], [131, 131, 187], [139, 139, 203],
    [0, 0, 0], [7, 7, 0], [11, 11, 0], [19, 19, 0],
    [27, 27, 0], [35, 35, 0], [43, 43, 7], [47, 47, 7],
    [55, 55, 7], [63, 63, 7], [71, 71, 7], [75, 75, 11],
    [83, 83, 11], [91, 91, 11], [99, 99, 11], [107, 107, 15],
    [7, 0, 0], [15, 0, 0], [23, 0, 0], [31, 0, 0],
    [39, 0, 0], [47, 0, 0], [55, 0, 0], [63, 0, 0],
    [71, 0, 0], [79, 0, 0], [87, 0, 0], [95, 0, 0],
    [103, 0, 0], [111, 0, 0], [119, 0, 0], [127, 0, 0],
    [19, 19, 0], [27, 27, 0], [35, 35, 0], [47, 43, 0],
    [55, 47, 0], [67, 55, 0], [75, 59, 7], [87, 67, 7],
    [95, 71, 7], [107, 75, 11], [119, 83, 15], [131, 87, 19],
    [139, 91, 19], [151, 95, 27], [163, 99, 31], [175, 103, 35],
    [35, 19, 7], [47, 23, 11], [59, 31, 15], [75, 35, 19],
    [87, 43, 23], [99, 47, 31], [115, 55, 35], [127, 59, 43],
    [143, 67, 51], [159, 79, 51], [175, 99, 47], [191, 119, 47],
    [207, 143, 43], [223, 171, 39], [239, 203, 31], [255, 243, 27],
    [11, 7, 0], [27, 19, 0], [43, 35, 15], [55, 43, 19],
    [71, 51, 27], [83, 55, 35], [99, 63, 43], [111, 71, 51],
    [127, 83, 63], [139, 95, 71], [155, 107, 83], [167, 123, 95],
    [183, 135, 107], [195, 147, 123], [211, 163, 139], [227, 179, 151],
    [171, 139, 163], [159, 127, 151], [147, 115, 135], [139, 103, 123],
    [127, 91, 111], [119, 83, 99], [107, 75, 87], [95, 63, 75],
    [87, 55, 67], [75, 47, 55], [67, 39, 47], [55, 31, 35],
    [43, 23, 27], [35, 19, 19], [23, 11, 11], [15, 7, 7],
    [187, 115, 159], [175, 107, 143], [163, 95, 131], [151, 87, 119],
    [139, 79, 107], [127, 75, 95], [115, 67, 83], [107, 59, 75],
    [95, 51, 63], [83, 43, 55], [71, 35, 43], [59, 31, 35],
    [47, 23, 27], [35, 19, 19], [23, 11, 11], [15, 7, 7],
    [219, 195, 187], [203, 179, 167], [191, 163, 155], [175, 151, 139],
    [163, 135, 123], [151, 123, 111], [135, 111, 95], [123, 99, 83],
    [107, 87, 71], [95, 75, 59], [83, 63, 51], [67, 51, 39],
    [55, 43, 31], [39, 31, 23], [27, 19, 15], [15, 11, 7],
    [111, 131, 123], [103, 123, 111], [95, 115, 103], [87, 107, 95],
    [79, 99, 87], [71, 91, 79], [63, 83, 71], [55, 75, 63],
    [47, 67, 55], [43, 59, 47], [35, 51, 39], [31, 43, 31],
    [23, 35, 23], [15, 27, 19], [11, 19, 11], [7, 11, 7],
    [255, 243, 27], [239, 223, 23], [219, 203, 19], [203, 183, 15],
    [187, 167, 15], [171, 151, 11], [155, 131, 7], [139, 115, 7],
    [123, 99, 7], [107, 83, 0], [91, 71, 0], [75, 55, 0],
    [59, 43, 0], [43, 31, 0], [27, 15, 0], [11, 7, 0],
    [0, 0, 255], [11, 11, 239], [19, 19, 223], [27, 27, 207],
    [35, 35, 191], [43, 43, 175], [47, 47, 159], [47, 47, 143],
    [47, 47, 127], [47, 47, 111], [47, 47, 95], [43, 43, 79],
    [35, 35, 63], [27, 27, 47], [19, 19, 31], [11, 11, 15],
    [43, 0, 0], [59, 0, 0], [75, 7, 0], [95, 7, 0],
    [111, 15, 0], [127, 23, 7], [147, 31, 7], [163, 39, 11],
    [183, 51, 15], [195, 75, 27], [207, 99, 43], [219, 127, 59],
    [227, 151, 79], [231, 171, 95], [239, 191, 119], [247, 211, 139],
    [167, 123, 59], [183, 155, 55], [199, 195, 55], [231, 227, 87],
    [127, 191, 255], [171, 231, 255], [215, 255, 255], [103, 0, 0],
    [139, 0, 0], [179, 0, 0], [215, 0, 0], [255, 0, 0],
    [255, 243, 147], [255, 247, 199], [255, 255, 255], [159, 91, 83]
  ]"

section \<open>The model format: MDLFileLoader\<close>

text \<open>
  The model loader is the class \<^verbatim>\<open>MDLFileLoader\<close> of \<^verbatim>\<open>src/src/MDLFileLoader.ts\<close>;
  the line numbers of this section are lines of that file.
\<close>

record MDL_Header =
  scale :: Vector3
  translate :: Vector3
  numSkins :: int
  skinWidth :: int
  skinHeight :: int
  numVertices :: int
  numTriangles :: int
  numFrames :: int

record Frame =
  positions :: "number list"
  normals :: "number list"

text \<open>What the loader hands to the engine: textures, morph targets and the mesh.\<close>

record RawTexture =
  textureData :: "int list"
  textureWidth :: int
  textureHeight :: int

record MorphTarget =
  targetPositions :: "number list"
  targetNormals :: "number list"
  targetUVs :: "number list"

record Mesh =
  meshIndices :: "int list"
  diffuseTexture :: "RawTexture option"
  morphTargets :: "MorphTarget list"

text \<open>
  Lines 89 to 116: magic and version (the second read is skipped when the first
  comparison already fails), then the header fields.
\<close>

definition mdl_readHeader :: "BinaryReader \<Rightarrow> error + MDL_Header \<times> BinaryReader" where
  "mdl_readHeader r0 =
     andThen (readInt32 r0) (\<lambda>(magic, r).
     if magic \<noteq> 1330660425 then Inl (Alerted NotMDL) else
     andThen (readInt32 r) (\<lambda>(version, r).
     if version \<noteq> 6 then Inl (Alerted NotMDL) else
     andThen (readVector3 r) (\<lambda>(scale, r).
     andThen (readVector3 r) (\<lambda>(translate, r).
     andThen (readInt32 (skipBytes r (4 * 4))) (\<lambda>(numSkins, r).
     andThen (readInt32 r) (\<lambda>(skinWidth, r).
     andThen (readInt32 r) (\<lambda>(skinHeight, r).
     andThen (readInt32 r) (\<lambda>(numVertices, r).
     andThen (readInt32 r) (\<lambda>(numTriangles, r).
     andThen (readInt32 r) (\<lambda>(numFrames, r).
     Inr (\<lparr>scale = scale, translate = translate, numSkins = numSkins,
           skinWidth = skinWidth, skinHeight = skinHeight, numVertices = numVertices,
           numTriangles = numTriangles, numFrames = numFrames\<rparr>,
          skipBytes r (4 * 3))))))))))))"

text \<open>Lines 138 to 144: one palette byte per pixel, three colour bytes written per pixel.\<close>

fun readSkinPixels :: "nat \<Rightarrow> BinaryReader \<Rightarrow> error + int list \<times> BinaryReader" where
  "readSkinPixels 0 r = Inr ([], r)"
| "readSkinPixels (Suc n) r0 =
     andThen (readUint8 r0) (\<lambda>(c, r).
     andThen (readSkinPixels n r) (\<lambda>(data, r).
     Inr (colorMap ! nat c @ data, r)))"

text \<open>
  Lines 130 to 165, one skin record. \<^verbatim>\<open>new Uint8Array(n)\<close> throws a RangeError for a
  negative \<open>n\<close>.
\<close>

definition readSkin :: "MDL_Header \<Rightarrow> nat \<Rightarrow> BinaryReader \<Rightarrow> error + RawTexture \<times> BinaryReader" where
  "readSkin header index r0 =
     andThen (readInt32 r0) (\<lambda>(group, r).
     if group \<noteq> 0 then Inl (Alerted (GroupSkin index))
     else if 3 * skinWidth header * skinHeight header < 0 then Inl RangeError
     else
       andThen (readSkinPixels (nat (skinWidth header * skinHeight header)) r) (\<lambda>(data, r).
       Inr (\<lparr>textureData = data, textureWidth = skinWidth header,
             textureHeight = skinHeight header\<rparr>, r)))"

text \<open>The loop of line 129, from \<open>index\<close> on, with \<open>n\<close> skins left.\<close>

fun readSkins :: "MDL_Header \<Rightarrow> nat \<Rightarrow> nat \<Rightarrow> BinaryReader \<Rightarrow> error + RawTexture list \<times> BinaryReader" where
  "readSkins header index 0 r = Inr ([], r)"
| "readSkins header index (Suc n) r0 =
     andThen (readSkin header index r0) (\<lambda>(texture, r).
     andThen (readSkins header (Suc index) n r) (\<lambda>(textures, r).
     Inr (texture # textures, r)))"

text \<open>
  Lines 172 to 176: \<open>onSeam\<close> is a \<^verbatim>\<open>Uint32Array\<close>, \<open>uvs\<close> a flat \<^verbatim>\<open>Float32Array\<close>
  \<open>[s0, t0, s1, t1, ...]\<close> of the raw texel coordinates.
\<close>

fun readUVs :: "nat \<Rightarrow> BinaryReader \<Rightarrow> error + (int list \<times> number list) \<times> BinaryReader" where
  "readUVs 0 r = Inr (([], []), r)"
| "readUVs (Suc n) r0 =
     andThen (readInt32 r0) (\<lambda>(seam, r).
     andThen (readInt32 r) (\<lambda>(s, r).
     andThen (readInt32 r) (\<lambda>(t, r).
     andThen (readUVs n r) (\<lambda>((onSeam, uvs), r).
     Inr ((toUint32 seam # onSeam, Fin (of_int s) # Fin (of_int t) # uvs), r)))))"

text \<open>
  Lines 184 to 216: \<open>faceFront\<close> and the flat \<open>indices\<close>, both \<^verbatim>\<open>Uint32Array\<close>s. The
  array \<^verbatim>\<open>backside\<close> written in this loop is never read and is left out.
\<close>

fun readTriangles :: "nat \<Rightarrow> BinaryReader \<Rightarrow> error + (int list \<times> int list) \<times> BinaryReader" where
  "readTriangles 0 r = Inr (([], []), r)"
| "readTriangles (Suc n) r0 =
     andThen (readInt32 r0) (\<lambda>(facesFront, r).
     andThen (readInt32 r) (\<lambda>(v0, r).
     andThen (readInt32 r) (\<lambda>(v1, r).
     andThen (readInt32 r) (\<lambda>(v2, r).
     andThen (readTriangles n r) (\<lambda>((indices, faceFront), r).
     Inr ((toUint32 v0 # toUint32 v1 # toUint32 v2 # indices,
           toUint32 facesFront # faceFront), r))))))"

text \<open>
  \<^verbatim>\<open>parseFrame\<close>, lines 349 to 360: three coordinate bytes and the normal index per
  vertex. \<^verbatim>\<open>anormals[normalIndex]\<close> is \<^verbatim>\<open>undefined\<close> outside the table and reading
  its element \<open>[0]\<close> throws a TypeError.
\<close>

fun readFrameVertices :: "MDL_Header \<Rightarrow> nat \<Rightarrow> BinaryReader \<Rightarrow> error + Frame \<times> BinaryReader" where
  "readFrameVertices header 0 r = Inr (\<lparr>positions = [], normals = []\<rparr>, r)"
| "readFrameVertices header (Suc n) r0 =
     andThen (readUint8 r0) (\<lambda>(x, r).
     andThen (readUint8 r) (\<lambda>(y, r).
     andThen (readUint8 r) (\<lambda>(z, r).
     andThen (readUint8 r) (\<lambda>(normalIndex, r).
     if \<not> nat normalIndex < length anormals then Inl TypeError
     else
       andThen (readFrameVertices header n r) (\<lambda>(frame, r).
       (case (scale header, translate header, anormals ! nat normalIndex) of
          ((sx, sy, sz), (tx, ty, tz), (nx, ny, nz)) \<Rightarrow>
            Inr (\<lparr>positions = num_add (num_mul (Fin (of_int x)) sx) tx
                              # num_add (num_mul (Fin (of_int y)) sy) ty
                              # num_add (num_mul (Fin (of_int z)) sz) tz
                              # positions frame,
                  normals = Fin nx # Fin ny # Fin nz # normals frame\<rparr>, r)))))))"

definition parseFrame :: "BinaryReader \<Rightarrow> MDL_Header \<Rightarrow> error + Frame \<times> BinaryReader" where
  "parseFrame r header = readFrameVertices header (nat (numVertices header)) (skipBytes r (2 * 4 + 16))"

text \<open>
  Reading a typed array outside its range gives \<^verbatim>\<open>undefined\<close>; stored into a
  \<^verbatim>\<open>Float32Array\<close>, or after \<^verbatim>\<open>+ 0.5\<close>, that is NaN. As a condition it is false.
\<close>

definition floatAt :: "number list \<Rightarrow> nat \<Rightarrow> number" where
  "floatAt xs k = (if k < length xs then xs ! k else NonFinite)"

definition truthyAt :: "int list \<Rightarrow> nat \<Rightarrow> bool" where
  "truthyAt xs k = (k < length xs \<and> xs ! k \<noteq> 0)"

text \<open>
  Lines 276 to 297, one triangle corner \<open>idx = 3 * i + j\<close>: the three position
  floats, the three normal floats and the two texture coordinates written at that
  corner.
\<close>

definition cornerUV :: "MDL_Header \<Rightarrow> int list \<Rightarrow> number list \<Rightarrow> int list \<Rightarrow> nat \<Rightarrow> nat \<Rightarrow> number list" where
  "cornerUV header onSeam uvs faceFront i vertexIndex =
     (let s = floatAt uvs (2 * vertexIndex + 0);
          t = floatAt uvs (2 * vertexIndex + 1);
          s = (if \<not> truthyAt faceFront i \<and> truthyAt onSeam vertexIndex
               then num_add s (Fin (0.5 * of_int (skinWidth header))) else s)
      in [num_div (num_add s (Fin 0.5)) (Fin (of_int (skinWidth header))),
          num_div (num_add t (Fin 0.5)) (Fin (of_int (skinHeight header)))])"

definition cornerFloats :: "number list \<Rightarrow> nat \<Rightarrow> number list" where
  "cornerFloats xs vertexIndex =
     [floatAt xs (3 * vertexIndex + 0), floatAt xs (3 * vertexIndex + 1), floatAt xs (3 * vertexIndex + 2)]"

text \<open>
  Lines 270 to 323: the buffers \<open>positions2\<close>, \<open>normals2\<close> and \<open>uvs2\<close> are filled
  corner by corner in the order \<open>idx = 0, 1, ..., 3 * numTriangles - 1\<close>, each
  corner once, and become one morph target.
\<close>

definition expandFrame :: "MDL_Header \<Rightarrow> int list \<Rightarrow> number list \<Rightarrow> int list \<Rightarrow> int list \<Rightarrow> Frame \<Rightarrow> MorphTarget" where
  "expandFrame header onSeam uvs indices faceFront frame =
     (let corners = [0 ..< 3 * nat (numTriangles header)] in
      \<lparr>targetPositions = concat (map (\<lambda>idx. cornerFloats (positions frame) (nat (indices ! idx))) corners),
       targetNormals = concat (map (\<lambda>idx. cornerFloats (normals frame) (nat (indices ! idx))) corners),
       targetUVs = concat (map (\<lambda>idx. cornerUV header onSeam uvs faceFront (idx div 3) (nat (indices ! idx))) corners)\<rparr>)"

text \<open>The sub-frames of a group, lines 330 to 332: parsed and dropped.\<close>

fun parseGroupFrames :: "MDL_Header \<Rightarrow> nat \<Rightarrow> BinaryReader \<Rightarrow> error + BinaryReader" where
  "parseGroupFrames header 0 r = Inr r"
| "parseGroupFrames header (Suc n) r0 =
     andThen (parseFrame r0 header) (\<lambda>(frame, r). parseGroupFrames header n r)"

text \<open>
  One frame record, lines 261 to 333: a single frame gives a morph target, a group
  gives none.
\<close>

definition readFrameRecord :: "MDL_Header \<Rightarrow> int list \<Rightarrow> number list \<Rightarrow> int list \<Rightarrow> int list \<Rightarrow> BinaryReader
    \<Rightarrow> error + MorphTarget option \<times> BinaryReader" where
  "readFrameRecord header onSeam uvs indices faceFront r0 =
     andThen (readInt32 r0) (\<lambda>(type, r).
     if type = 0 then
       andThen (parseFrame r header) (\<lambda>(frame, r).
       Inr (Some (expandFrame header onSeam uvs indices faceFront frame), r))
     else
       andThen (readInt32 r) (\<lambda>(numFramesInGroup, r).
       andThen (parseGroupFrames header (nat numFramesInGroup)
                  (skipBytes (skipBytes r (3 * 4)) (4 * numFramesInGroup))) (\<lambda>r.
       Inr (None, r))))"

text \<open>
  The loop of line 259 with \<open>n\<close> records left. The mesh is already in \<open>meshes\<close>
  when it runs, so the targets added before an exception stay visible: the loop
  returns them together with the error, if any.
\<close>

fun readFrames :: "MDL_Header \<Rightarrow> int list \<Rightarrow> number list \<Rightarrow> int list \<Rightarrow> int list \<Rightarrow> nat \<Rightarrow> BinaryReader
    \<Rightarrow> MorphTarget list \<Rightarrow> MorphTarget list \<times> error option" where
  "readFrames header onSeam uvs indices faceFront 0 r targets = (targets, None)"
| "readFrames header onSeam uvs indices faceFront (Suc n) r targets =
     (case readFrameRecord header onSeam uvs indices faceFront r of
        Inl e \<Rightarrow> (targets, Some e)
      | Inr (None, r') \<Rightarrow> readFrames header onSeam uvs indices faceFront n r' targets
      | Inr (Some target, r') \<Rightarrow> readFrames header onSeam uvs indices faceFront n r' (targets @ [target]))"

text \<open>
  Lines 87 to 216: everything read before the mesh is created. The typed arrays of
  lines 169 and 179 throw a RangeError for a negative length.
\<close>

record MDL_Tables =
  mdlHeader :: MDL_Header
  mdlTextures :: "RawTexture list"
  mdlOnSeam :: "int list"
  mdlUVs :: "number list"
  mdlIndices :: "int list"
  mdlFaceFront :: "int list"

definition mdl_readTables :: "BinaryReader \<Rightarrow> error + MDL_Tables \<times> BinaryReader" where
  "mdl_readTables r0 =
     andThen (mdl_readHeader r0) (\<lambda>(header, r).
     andThen (readSkins header 0 (nat (numSkins header)) r) (\<lambda>(textures, r).
     if numVertices header < 0 then Inl RangeError else
     andThen (readUVs (nat (numVertices header)) r) (\<lambda>((onSeam, uvs), r).
     if 3 * numTriangles header < 0 then Inl RangeError else
     andThen (readTriangles (nat (numTriangles header)) r) (\<lambda>((indices, faceFront), r).
     Inr (\<lparr>mdlHeader = header, mdlTextures = textures, mdlOnSeam = onSeam, mdlUVs = uvs,
           mdlIndices = indices, mdlFaceFront = faceFront\<rparr>, r)))))"

text \<open>
  \<^verbatim>\<open>importMesh\<close>: \<open>meshes\<close> is the caller's array (\<^verbatim>\<open>null\<close> when called from
  \<^verbatim>\<open>load\<close>). The result is what the call returns or throws, with the array as the
  call leaves it. Line 257 pushes the mesh before the frames are read.
\<close>

definition mdl_importMesh :: "byte list \<Rightarrow> Mesh list option \<Rightarrow> (error + bool) \<times> Mesh list option" where
  "mdl_importMesh data meshes =
     (case mdl_readTables (newBinaryReader data) of
        Inl e \<Rightarrow> (Inl e, meshes)
      | Inr (t, r) \<Rightarrow>
          (case meshes of
             None \<Rightarrow> (Inl TypeError, None)
           | Some ms \<Rightarrow>
               (case readFrames (mdlHeader t) (mdlOnSeam t) (mdlUVs t) (mdlIndices t) (mdlFaceFront t)
                       (nat (numFrames (mdlHeader t))) r [] of
                  (targets, err) \<Rightarrow>
                    (let mesh = \<lparr>meshIndices = map int [0 ..< 3 * nat (numTriangles (mdlHeader t))],
                                 diffuseTexture = (case mdlTextures t of [] \<Rightarrow> None | x # _ \<Rightarrow> Some x),
                                 morphTargets = targets\<rparr>
                     in (case err of None \<Rightarrow> Inr True | Some e \<Rightarrow> Inl e, Some (ms @ [mesh]))))))"


section \<open>The level format: BSPFileLoader\<close>

text \<open>
  The level loader is the class \<^verbatim>\<open>BSPFileLoader\<close> of \<^verbatim>\<open>src/unnamed/part_000\<close>;
  the line numbers of this section are lines of that file.
\<close>

text \<open>
  A directory entry holds the section's byte offset and its element count, which the
  source computes with JavaScript's division: it is a fraction when the byte length
  is not a multiple of the element size.
\<close>

record DirectoryEntry =
  entryOffset :: int
  entryCount :: real

record BSP_Header =
  dirPlanes :: DirectoryEntry
  dirMiptex :: DirectoryEntry
  dirVertices :: DirectoryEntry
  dirTexinfo :: DirectoryEntry
  dirFaces :: DirectoryEntry
  dirEdges :: DirectoryEntry
  dirLedges :: DirectoryEntry

type_synonym Vector4 = "number \<times> number \<times> number \<times> number"

record Plane =
  planeNormal :: Vector3
  planeDistance :: number
  planeType :: int

record Face =
  planeIndex :: int
  side :: bool
  ledgeIndex :: int
  numLedges :: int
  texInfoIndex :: int
  lightType :: int
  baseLight :: int
  light :: "int \<times> int"
  lightMap :: int

record Texinfo =
  texS :: Vector4
  texT :: Vector4
  texMiptex :: int
  texFlags :: int

record Miptex =
  mipName :: string
  mipWidth :: int
  mipHeight :: int
  mipOffsets :: "int \<times> int \<times> int \<times> int"

text \<open>\<^verbatim>\<open>{ offset: reader.readInt32(), count: reader.readInt32()/size }\<close>\<close>

definition readEntry :: "BinaryReader \<Rightarrow> real \<Rightarrow> error + DirectoryEntry \<times> BinaryReader" where
  "readEntry r0 elementSize =
     andThen (readInt32 r0) (\<lambda>(offset, r).
     andThen (readInt32 r) (\<lambda>(bytes, r).
     Inr (\<lparr>entryOffset = offset, entryCount = of_int bytes / elementSize\<rparr>, r)))"

text \<open>\<^verbatim>\<open>readHeader\<close>, lines 95 to 150. The miptex count is kept as read (divided by 1).\<close>

definition bsp_readHeader :: "BinaryReader \<Rightarrow> error + BSP_Header \<times> BinaryReader" where
  "bsp_readHeader r0 =
     andThen (readEntry (skipBytes r0 8) 20) (\<lambda>(planes, r).
     andThen (readEntry r 1) (\<lambda>(miptex, r).
     andThen (readEntry r 12) (\<lambda>(vertices, r).
     andThen (readEntry (skipBytes r (2 * 8)) 40) (\<lambda>(texinfo, r).
     andThen (readEntry r 20) (\<lambda>(faces, r).
     andThen (readEntry (skipBytes r (4 * 8)) 4) (\<lambda>(edges, r).
     andThen (readEntry r 4) (\<lambda>(ledges, r).
     Inr (\<lparr>dirPlanes = planes, dirMiptex = miptex, dirVertices = vertices,
           dirTexinfo = texinfo, dirFaces = faces, dirEdges = edges, dirLedges = ledges\<rparr>,
          skipBytes r 8))))))))"

text \<open>
  \<^verbatim>\<open>new Array(n)\<close> throws a RangeError unless \<open>n\<close> is a non-negative integer; the
  loop \<^verbatim>\<open>for (i = 0; i < n; ++i)\<close> then runs \<open>n\<close> times.
\<close>

definition arrayLength :: "real \<Rightarrow> error + nat" where
  "arrayLength n = (if 0 \<le> n \<and> of_int \<lfloor>n\<rfloor> = n then Inr (nat \<lfloor>n\<rfloor>) else Inl RangeError)"

text \<open>A loop that reads \<open>n\<close> records one after the other.\<close>

fun readMany :: "(BinaryReader \<Rightarrow> error + 'a \<times> BinaryReader) \<Rightarrow> nat \<Rightarrow> BinaryReader
    \<Rightarrow> error + 'a list \<times> BinaryReader" where
  "readMany readOne 0 r = Inr ([], r)"
| "readMany readOne (Suc n) r0 =
     andThen (readOne r0) (\<lambda>(x, r).
     andThen (readMany readOne n r) (\<lambda>(xs, r).
     Inr (x # xs, r)))"

text \<open>Line 186: the vertex as read, divided by \<open>(10, 10, 10)\<close>.\<close>

definition readVertex :: "BinaryReader \<Rightarrow> error + Vector3 \<times> BinaryReader" where
  "readVertex r0 =
     andThen (readVector3 r0) (\<lambda>((x, y, z), r).
     Inr ((num_div x (Fin 10), num_div y (Fin 10), num_div z (Fin 10)), r))"

text \<open>Line 192: an edge is the pair \<open>(x, y)\<close> of its two vertex indices, \<open>v0\<close> and \<open>v1\<close>.\<close>

definition readEdge :: "BinaryReader \<Rightarrow> error + (int \<times> int) \<times> BinaryReader" where
  "readEdge r0 =
     andThen (readUint16 r0) (\<lambda>(x, r).
     andThen (readUint16 r) (\<lambda>(y, r).
     Inr ((x, y), r)))"

definition readVector4 :: "BinaryReader \<Rightarrow> error + Vector4 \<times> BinaryReader" where
  "readVector4 r0 =
     andThen (readFloat32 r0) (\<lambda>(x, r).
     andThen (readFloat32 r) (\<lambda>(y, r).
     andThen (readFloat32 r) (\<lambda>(z, r).
     andThen (readFloat32 r) (\<lambda>(w, r).
     Inr ((x, y, z, w), r)))))"

definition readTexinfo :: "BinaryReader \<Rightarrow> error + Texinfo \<times> BinaryReader" where
  "readTexinfo r0 =
     andThen (readVector4 r0) (\<lambda>(s, r).
     andThen (readVector4 r) (\<lambda>(t, r).
     andThen (readUint32 r) (\<lambda>(miptex, r).
     andThen (readUint32 r) (\<lambda>(flags, r).
     Inr (\<lparr>texS = s, texT = t, texMiptex = miptex, texFlags = flags\<rparr>, r)))))"

text \<open>
  \<^verbatim>\<open>new Uint8Array(buffer, byteOffset, length)\<close> and \<^verbatim>\<open>new Uint32Array(buffer, byteOffset, length)\<close>:
  views on the buffer, a RangeError when they do not fit or, for 32-bit elements,
  when the offset is not a multiple of 4.
\<close>

definition readUint8Array :: "BinaryReader \<Rightarrow> int \<Rightarrow> error + int list \<times> BinaryReader" where
  "readUint8Array r n =
     (if inView r n
      then Inr (map (\<lambda>k. getByte r (int k)) [0 ..< nat n], skipBytes r n)
      else Inl RangeError)"

definition readUint32Array :: "BinaryReader \<Rightarrow> int \<Rightarrow> error + int list \<times> BinaryReader" where
  "readUint32Array r n =
     (if inView r (4 * n) \<and> byteOffset r mod 4 = 0
      then Inr (map (\<lambda>k. getUint32 (skipBytes r (4 * int k))) [0 ..< nat n], skipBytes r (4 * n))
      else Inl RangeError)"

text \<open>Lines 210 to 223: one texture record at \<open>offset\<close>, its name cut at the first NUL.\<close>

definition readMiptex :: "BinaryReader \<Rightarrow> int \<Rightarrow> error + Miptex" where
  "readMiptex r0 offset =
     andThen (readUint8Array (seekBytes r0 offset) 16) (\<lambda>(array, r).
     andThen (readUint32 r) (\<lambda>(width, r).
     andThen (readUint32 r) (\<lambda>(height, r).
     andThen (readUint32 r) (\<lambda>(o0, r).
     andThen (readUint32 r) (\<lambda>(o1, r).
     andThen (readUint32 r) (\<lambda>(o2, r).
     andThen (readUint32 r) (\<lambda>(o3, r).
     Inr \<lparr>mipName = map char_of (takeWhile (\<lambda>v. v \<noteq> 0) array), mipWidth = width,
          mipHeight = height, mipOffsets = (o0, o1, o2, o3)\<rparr>)))))))"

fun readMiptexs :: "BinaryReader \<Rightarrow> int \<Rightarrow> int list \<Rightarrow> error + Miptex list" where
  "readMiptexs r base [] = Inr []"
| "readMiptexs r base (miptexOffset # miptexOffsets) =
     andThen (readMiptex r (base + miptexOffset)) (\<lambda>m.
     andThen (readMiptexs r base miptexOffsets) (\<lambda>ms.
     Inr (m # ms)))"

text \<open>Lines 227 to 265: the pixels of mip level 0 through the palette, one material per texture.\<close>

record Material =
  materialName :: string
  materialTexture :: RawTexture

definition readMaterial :: "BinaryReader \<Rightarrow> int \<Rightarrow> Miptex \<Rightarrow> error + Material" where
  "readMaterial r0 offset m =
     (case mipOffsets m of (o0, o1, o2, o3) \<Rightarrow>
        andThen (readSkinPixels (nat (mipWidth m * mipHeight m)) (seekBytes r0 (offset + o0))) (\<lambda>(data, r).
        Inr \<lparr>materialName = mipName m,
             materialTexture = \<lparr>textureData = data, textureWidth = mipWidth m,
                                 textureHeight = mipHeight m\<rparr>\<rparr>))"

fun readMaterials :: "BinaryReader \<Rightarrow> int \<Rightarrow> int list \<Rightarrow> Miptex list \<Rightarrow> error + Material list" where
  "readMaterials r base (miptexOffset # miptexOffsets) (m # ms) =
     andThen (readMaterial r (base + miptexOffset) m) (\<lambda>x.
     andThen (readMaterials r base miptexOffsets ms) (\<lambda>xs.
     Inr (x # xs)))"
| "readMaterials r base _ _ = Inr []"

text \<open>
  Lines 272 to 275: \<^verbatim>\<open>new Int32Array(n)\<close> truncates a fractional \<open>n\<close> and throws a
  RangeError for \<open>n \<le> -1\<close>; the loop still reads while \<open>i < n\<close>, and a store
  behind the end of the array is dropped.
\<close>

definition readLedges :: "BinaryReader \<Rightarrow> real \<Rightarrow> error + int list" where
  "readLedges r n =
     (if n \<le> - 1 then Inl RangeError
      else andThen (readMany readInt32 (nat \<lceil>n\<rceil>) r) (\<lambda>(xs, r). Inr (take (nat \<lfloor>n\<rfloor>) xs)))"

definition readPlane :: "BinaryReader \<Rightarrow> error + Plane \<times> BinaryReader" where
  "readPlane r0 =
     andThen (readVector3 r0) (\<lambda>(normal, r).
     andThen (readFloat32 r) (\<lambda>(distance, r).
     andThen (readUint32 r) (\<lambda>(type, r).
     Inr (\<lparr>planeNormal = normal, planeDistance = distance, planeType = type\<rparr>, r))))"

text \<open>Lines 291 to 300: one face record.\<close>

definition readFace :: "BinaryReader \<Rightarrow> error + Face \<times> BinaryReader" where
  "readFace r0 =
     andThen (readUint16 r0) (\<lambda>(planeIndex, r).
     andThen (readUint16 r) (\<lambda>(side, r).
     andThen (readInt32 r) (\<lambda>(ledgeIndex, r).
     andThen (readUint16 r) (\<lambda>(numLedges, r).
     andThen (readInt16 r) (\<lambda>(texInfoIndex, r).
     andThen (readUint8 r) (\<lambda>(lightType, r).
     andThen (readUint8 r) (\<lambda>(baseLight, r).
     andThen (readUint8 r) (\<lambda>(light0, r).
     andThen (readUint8 r) (\<lambda>(light1, r).
     andThen (readUint32 r) (\<lambda>(lightMap, r).
     Inr (\<lparr>planeIndex = planeIndex, side = (side \<noteq> 0), ledgeIndex = ledgeIndex,
           numLedges = numLedges, texInfoIndex = texInfoIndex, lightType = lightType,
           baseLight = baseLight, light = (light0, light1), lightMap = lightMap\<rparr>, r)))))))))))"

text \<open>
  The loop of lines 290 to 304 with \<open>n\<close> faces left and the running \<open>numTriangles\<close> (here \<open>triangles\<close>):
  the faces, the entries \<open>faceOffsets[i+1]\<close> (a \<^verbatim>\<open>Uint32Array\<close>) and the final count.
\<close>

fun readFaces :: "nat \<Rightarrow> int \<Rightarrow> BinaryReader \<Rightarrow> error + (Face list \<times> int list \<times> int)" where
  "readFaces 0 triangles r = Inr ([], [], triangles)"
| "readFaces (Suc n) triangles r0 =
     andThen (readFace r0) (\<lambda>(face, r).
     andThen (readFaces n (triangles + (numLedges face - 2)) r) (\<lambda>(faces, offsets, total).
     Inr (face # faces, toUint32 (triangles + (numLedges face - 2)) # offsets, total)))"

subsection \<open>Geometry reconstruction\<close>

text \<open>An array element, \<^verbatim>\<open>undefined\<close> outside the range.\<close>

definition element :: "'a list \<Rightarrow> int \<Rightarrow> 'a option" where
  "element xs i = (if 0 \<le> i \<and> i < int (length xs) then Some (xs ! nat i) else None)"

text \<open>
  Lines 321 to 323, one step of the polygon loop at edge-list position \<open>j\<close>. Outside
  the edge list \<^verbatim>\<open>ledges[j]\<close> is \<^verbatim>\<open>undefined\<close>, \<^verbatim>\<open>edges[NaN]\<close> is
  \<^verbatim>\<open>undefined\<close> too, and reading \<^verbatim>\<open>edge.x\<close> throws a TypeError.
\<close>

definition polygonVertex :: "int list \<Rightarrow> (int \<times> int) list \<Rightarrow> int \<Rightarrow> error + int" where
  "polygonVertex ledges edges j =
     (case element ledges j of
        None \<Rightarrow> Inl TypeError
      | Some edgeIndex \<Rightarrow>
          (case element edges \<bar>edgeIndex\<bar> of
             None \<Rightarrow> Inl TypeError
           | Some (x, y) \<Rightarrow> Inr (if edgeIndex < 0 then x else y)))"

text \<open>Lines 319 to 324: the loop from \<open>j\<close> with \<open>n = end - j\<close> entries left.\<close>

fun extractPolygon :: "int list \<Rightarrow> (int \<times> int) list \<Rightarrow> int \<Rightarrow> nat \<Rightarrow> error + int list" where
  "extractPolygon ledges edges j 0 = Inr []"
| "extractPolygon ledges edges j (Suc n) =
     andThen (polygonVertex ledges edges j) (\<lambda>v.
     andThen (extractPolygon ledges edges (j + 1) n) (\<lambda>polygon.
     Inr (v # polygon)))"

record VertexData =
  vdPositions :: "number list"
  vdUVs :: "number list"
  vdIndices :: "int list"

definition dot :: "Vector4 \<Rightarrow> Vector4 \<Rightarrow> number" where
  "dot a b =
     (case (a, b) of ((ax, ay, az, aw), (bx, by, bz, bw)) \<Rightarrow>
        num_add (num_add (num_add (num_mul ax bx) (num_mul ay by)) (num_mul az bz)) (num_mul aw bw))"

text \<open>
  Lines 332 to 338, the values of one corner with polygon vertex \<open>tk\<close>: the position
  taken from the vertex table, and the texture coordinates from that position
  multiplied by \<open>(10, 10, 10, 1)\<close>. A vertex outside the table or a missing texture
  throws a TypeError.
\<close>

definition cornerData :: "Vector3 list \<Rightarrow> Texinfo \<Rightarrow> Miptex option \<Rightarrow> int
    \<Rightarrow> error + (number list \<times> number list)" where
  "cornerData vertices texinfo miptex tk =
     (case element vertices tk of
        None \<Rightarrow> Inl TypeError
      | Some (x, y, z) \<Rightarrow>
          (case miptex of
             None \<Rightarrow> Inl TypeError
           | Some m \<Rightarrow>
               (let v = (num_mul x (Fin 10), num_mul y (Fin 10), num_mul z (Fin 10),
                         num_mul (Fin 1) (Fin 1))
                in Inr ([x, y, z],
                        [num_div (dot v (texS texinfo)) (Fin (of_int (mipWidth m))),
                         num_div (num_neg (dot v (texT texinfo))) (Fin (of_int (mipHeight m)))]))))"

text \<open>
  The stores of lines 333 to 339 for corner \<open>k\<close> of triangle \<open>index\<close>. A store behind
  the end of a typed array is dropped, as \<open>xs[i := v]\<close> does.
\<close>

definition emitCorner :: "Vector3 list \<Rightarrow> Texinfo \<Rightarrow> Miptex option \<Rightarrow> nat \<Rightarrow> nat \<Rightarrow> int
    \<Rightarrow> VertexData \<Rightarrow> error + VertexData" where
  "emitCorner vertices texinfo miptex index k tk vd =
     andThen (cornerData vertices texinfo miptex tk) (\<lambda>(p, uv).
     Inr \<lparr>vdPositions = (vdPositions vd)
             [9 * index + (3 * k + 0) := p ! 0,
              9 * index + (3 * k + 1) := p ! 1,
              9 * index + (3 * k + 2) := p ! 2],
          vdUVs = (vdUVs vd)
             [6 * index + (2 * k + 0) := uv ! 0,
              6 * index + (2 * k + 1) := uv ! 1],
          vdIndices = (vdIndices vd)
             [3 * index + k := toUint32 (int (3 * index + k))]\<rparr>)"

text \<open>Lines 329 to 340: triangle \<open>j\<close> of a face is the fan triangle \<open>(0, j+1, j+2)\<close>.\<close>

definition emitTriangle :: "Vector3 list \<Rightarrow> Texinfo \<Rightarrow> Miptex option \<Rightarrow> int list \<Rightarrow> nat \<Rightarrow> nat
    \<Rightarrow> VertexData \<Rightarrow> error + VertexData" where
  "emitTriangle vertices texinfo miptex polygon faceOffset j vd0 =
     andThen (emitCorner vertices texinfo miptex (faceOffset + j) 0 (polygon ! 0) vd0) (\<lambda>vd.
     andThen (emitCorner vertices texinfo miptex (faceOffset + j) 1 (polygon ! (j + 1)) vd) (\<lambda>vd.
     emitCorner vertices texinfo miptex (faceOffset + j) 2 (polygon ! (j + 2)) vd))"

text \<open>The loop of line 328 from triangle \<open>j\<close> with \<open>n\<close> triangles left.\<close>

fun triangulate :: "Vector3 list \<Rightarrow> Texinfo \<Rightarrow> Miptex option \<Rightarrow> int list \<Rightarrow> nat \<Rightarrow> nat \<Rightarrow> nat
    \<Rightarrow> VertexData \<Rightarrow> error + VertexData" where
  "triangulate vertices texinfo miptex polygon faceOffset j 0 vd = Inr vd"
| "triangulate vertices texinfo miptex polygon faceOffset j (Suc n) vd0 =
     andThen (emitTriangle vertices texinfo miptex polygon faceOffset j vd0) (\<lambda>vd.
     triangulate vertices texinfo miptex polygon faceOffset (Suc j) n vd)"

text \<open>The decoded tables the reconstruction works on.\<close>

record BSP_Tables =
  bspVertices :: "Vector3 list"
  bspEdges :: "(int \<times> int) list"
  bspTexinfos :: "Texinfo list"
  bspMiptexs :: "Miptex list"
  bspMaterials :: "Material list"
  bspLedges :: "int list"
  bspPlanes :: "Plane list"
  bspFaces :: "Face list"
  bspFaceOffsets :: "int list"
  bspNumTriangles :: int

text \<open>Lines 313 to 341: face \<open>i\<close>.\<close>

definition reconstructFace :: "BSP_Tables \<Rightarrow> nat \<Rightarrow> VertexData \<Rightarrow> error + VertexData" where
  "reconstructFace t i vd =
     (let face = bspFaces t ! i in
      case element (bspTexinfos t) (texInfoIndex face) of
        None \<Rightarrow> Inl TypeError
      | Some texinfo \<Rightarrow>
          andThen (extractPolygon (bspLedges t) (bspEdges t) (ledgeIndex face) (nat (numLedges face)))
            (\<lambda>polygon.
               triangulate (bspVertices t) texinfo (element (bspMiptexs t) (texMiptex texinfo)) polygon
                 (nat (bspFaceOffsets t ! i)) 0 (length polygon - 2) vd))"

text \<open>The loop of line 312 from face \<open>i\<close> with \<open>n\<close> faces left.\<close>

fun reconstructFaces :: "BSP_Tables \<Rightarrow> nat \<Rightarrow> nat \<Rightarrow> VertexData \<Rightarrow> error + VertexData" where
  "reconstructFaces t i 0 vd = Inr vd"
| "reconstructFaces t i (Suc n) vd0 =
     andThen (reconstructFace t i vd0) (\<lambda>vd. reconstructFaces t (Suc i) n vd)"

text \<open>
  Lines 307 to 342. The three typed arrays start filled with zeros; a negative
  length throws a RangeError.
\<close>

definition reconstruct :: "BSP_Tables \<Rightarrow> error + VertexData" where
  "reconstruct t =
     (if 9 * bspNumTriangles t < 0 then Inl RangeError
      else reconstructFaces t 0 (length (bspFaces t))
             \<lparr>vdPositions = replicate (nat (9 * bspNumTriangles t)) (Fin 0),
              vdUVs = replicate (nat (6 * bspNumTriangles t)) (Fin 0),
              vdIndices = replicate (nat (3 * bspNumTriangles t)) 0\<rparr>)"

text \<open>Lines 350 to 361: one \<^verbatim>\<open>SubMesh\<close> per face, pushed in face order.\<close>

record SubMesh =
  materialIndex :: int
  verticesStart :: int
  verticesCount :: int
  indexStart :: int
  indexCount :: int

definition faceSubMesh :: "BSP_Tables \<Rightarrow> nat \<Rightarrow> error + SubMesh" where
  "faceSubMesh t i =
     (case element (bspTexinfos t) (texInfoIndex (bspFaces t ! i)) of
        None \<Rightarrow> Inl TypeError
      | Some texinfo \<Rightarrow>
          (let start = bspFaceOffsets t ! i;
               end' = bspFaceOffsets t ! (i + 1);
               num = end' - start
           in Inr \<lparr>materialIndex = texMiptex texinfo, verticesStart = 9 * start,
                   verticesCount = 9 * num, indexStart = 3 * start, indexCount = 3 * num\<rparr>))"

fun faceSubMeshes :: "BSP_Tables \<Rightarrow> nat \<Rightarrow> nat \<Rightarrow> error + SubMesh list" where
  "faceSubMeshes t i 0 = Inr []"
| "faceSubMeshes t i (Suc n) =
     andThen (faceSubMesh t i) (\<lambda>subMesh.
     andThen (faceSubMeshes t (Suc i) n) (\<lambda>subMeshes.
     Inr (subMesh # subMeshes)))"

text \<open>Lines 181 to 304: the section decoders, in the order of the source.\<close>

definition bsp_readTables :: "BinaryReader \<Rightarrow> BSP_Header \<Rightarrow> error + BSP_Tables" where
  "bsp_readTables r header =
     andThen (arrayLength (entryCount (dirVertices header))) (\<lambda>numVertices.
     andThen (readMany readVertex numVertices (seekBytes r (entryOffset (dirVertices header)))) (\<lambda>(vertices, _).
     andThen (arrayLength (entryCount (dirEdges header))) (\<lambda>numEdges.
     andThen (readMany readEdge numEdges (seekBytes r (entryOffset (dirEdges header)))) (\<lambda>(edges, _).
     andThen (arrayLength (entryCount (dirTexinfo header))) (\<lambda>numTexinfos.
     andThen (readMany readTexinfo numTexinfos (seekBytes r (entryOffset (dirTexinfo header)))) (\<lambda>(texinfos, _).
     andThen (readUint32 (seekBytes r (entryOffset (dirMiptex header)))) (\<lambda>(miptexCount, r1).
     andThen (readUint32Array r1 miptexCount) (\<lambda>(miptexOffsets, _).
     andThen (readMiptexs r (entryOffset (dirMiptex header)) miptexOffsets) (\<lambda>miptexs.
     andThen (readMaterials r (entryOffset (dirMiptex header)) miptexOffsets miptexs) (\<lambda>materials.
     andThen (readLedges (seekBytes r (entryOffset (dirLedges header))) (entryCount (dirLedges header))) (\<lambda>ledges.
     andThen (arrayLength (entryCount (dirPlanes header))) (\<lambda>numPlanes.
     andThen (readMany readPlane numPlanes (seekBytes r (entryOffset (dirPlanes header)))) (\<lambda>(planes, _).
     andThen (arrayLength (entryCount (dirFaces header))) (\<lambda>numFaces.
     andThen (readFaces numFaces 0 (seekBytes r (entryOffset (dirFaces header)))) (\<lambda>(faces, offsets, numTriangles).
     Inr \<lparr>bspVertices = vertices, bspEdges = edges, bspTexinfos = texinfos, bspMiptexs = miptexs,
          bspMaterials = materials, bspLedges = ledges, bspPlanes = planes, bspFaces = faces,
          bspFaceOffsets = 0 # offsets, bspNumTriangles = numTriangles\<rparr>)))))))))))))))"

record LevelMesh =
  levelData :: VertexData
  levelMaterials :: "Material list"
  levelSubMeshes :: "SubMesh list"

text \<open>
  \<^verbatim>\<open>importMesh\<close>, lines 173 to 384. The mesh is pushed to \<open>meshes\<close> (\<^verbatim>\<open>null\<close> when
  called from \<^verbatim>\<open>load\<close>) in line 363, after everything else.
\<close>

definition bsp_importMesh :: "byte list \<Rightarrow> LevelMesh list option \<Rightarrow> (error + bool) \<times> LevelMesh list option" where
  "bsp_importMesh data meshes =
     (case
        andThen (readInt32 (newBinaryReader data)) (\<lambda>(magic, r).
        if magic \<noteq> 29 then Inl (Alerted NotBSP) else
        andThen (bsp_readHeader r) (\<lambda>(header, r).
        andThen (bsp_readTables r header) (\<lambda>t.
        andThen (reconstruct t) (\<lambda>vertexData.
        andThen (faceSubMeshes t 0 (length (bspFaces t))) (\<lambda>subMeshes.
        Inr \<lparr>levelData = vertexData, levelMaterials = bspMaterials t,
             levelSubMeshes = subMeshes\<rparr>)))))
      of
        Inl e \<Rightarrow> (Inl e, meshes)
      | Inr mesh \<Rightarrow>
          (case meshes of
             None \<Rightarrow> (Inl TypeError, None)
           | Some ms \<Rightarrow> (Inr True, Some (ms @ [mesh]))))"

section \<open>Concrete files\<close>

text \<open>
  A complete model file of 181 bytes: the header (magic \<open>IDPO\<close>, version 6, scale
  \<open>(1, 1, 1)\<close>, translate \<open>(0, 0, 0)\<close>, one skin of 1 by 1 texels, three vertices, one
  triangle, one frame), the skin (group flag 0 and one palette byte), three texture
  coordinate records, the triangle \<open>(0, 1, 2)\<close> and one single frame whose three
  vertices have the normal indices 0, 1 and \<open>normalIndex\<close>, the file's last byte.
\<close>

definition mdl_one_triangle :: "byte \<Rightarrow> byte list" where
  "mdl_one_triangle normalIndex =
    [
     73, 68, 80, 79, 6, 0, 0, 0, 0, 0, 128, 63, 0, 0, 128, 63, 0, 0, 128, 63, 0, 0, 0, 0,
     0, 0, 0, 0, 0, 0, 0, 0, 0, 0, 0, 0, 0, 0, 0, 0, 0, 0, 0, 0, 0, 0, 0, 0, 1, 0, 0, 0, 1,
     0, 0, 0, 1, 0, 0, 0, 3, 0, 0, 0, 1, 0, 0, 0, 1, 0, 0, 0, 0, 0, 0, 0, 0, 0, 0, 0, 0, 0,
     0, 0, 0, 0, 0, 0, 255, 0, 0, 0, 0, 0, 0, 0, 0, 0, 0, 0, 0, 0, 0, 0, 0, 0, 0, 0, 0, 0,
     0, 0, 0, 0, 0, 0, 0, 0, 0, 0, 0, 0, 0, 0, 0, 1, 0, 0, 0, 0, 0, 0, 0, 1, 0, 0, 0, 2, 0,
     0, 0, 0, 0, 0, 0, 0, 0, 0, 0, 9, 9, 9, 0, 0, 0, 0, 0, 0, 0, 0, 0, 0, 0, 0, 0, 0, 0, 0,
     0, 1, 2, 3, 0, 2, 2, 3, 1, 3, 2, 3,
     normalIndex]"

text \<open>
  The first 88 bytes of a model file: the header (one skin of 4 by 4 texels, three
  vertices, one triangle, one frame) and the group flag 1 of the first skin record.
  Nothing follows the flag.
\<close>

definition mdl_group_skin :: "byte list" where
  "mdl_group_skin =
    [
     73, 68, 80, 79, 6, 0, 0, 0, 0, 0, 128, 63, 0, 0, 128, 63, 0, 0, 128, 63, 0, 0, 0, 0,
     0, 0, 0, 0, 0, 0, 0, 0, 0, 0, 0, 0, 0, 0, 0, 0, 0, 0, 0, 0, 0, 0, 0, 0, 1, 0, 0, 0, 4,
     0, 0, 0, 4, 0, 0, 0, 3, 0, 0, 0, 1, 0, 0, 0, 1, 0, 0, 0, 0, 0, 0, 0, 0, 0, 0, 0, 0, 0,
     0, 0, 1, 0, 0, 0]"

text \<open>
  A complete model file of 237 bytes with two frame records. Bytes 0 to 140 are the
  header (one skin of 1 by 1 texels, three vertices, one triangle, two frames), the
  skin, three texture coordinate records and the triangle \<open>(0, 1, 2)\<close>. Bytes 141 to
  196 are a group frame in the layout of the format: the group flag 1, the sub-frame
  count 1, the two 4-byte bounding-box vertices, one 4-byte interval, and one
  sub-frame (two 4-byte bounding-box vertices, a 16-byte name, three 4-byte
  vertices). Bytes 197 to 236 are a single frame: the flag 0, two 4-byte
  bounding-box vertices, a 16-byte name and three 4-byte vertices. Its first 141
  bytes alone are a file whose frame records are missing.
\<close>

definition mdl_group_then_single :: "byte list" where
  "mdl_group_then_single =
    [
     73, 68, 80, 79, 6, 0, 0, 0, 0, 0, 128, 63, 0, 0, 128, 63, 0, 0, 128, 63, 0, 0, 0, 0,
     0, 0, 0, 0, 0, 0, 0, 0, 0, 0, 0, 0, 0, 0, 0, 0, 0, 0, 0, 0, 0, 0, 0, 0, 1, 0, 0, 0, 1,
     0, 0, 0, 1, 0, 0, 0, 3, 0, 0, 0, 1, 0, 0, 0, 2, 0, 0, 0, 0, 0, 0, 0, 0, 0, 0, 0, 0, 0,
     0, 0, 0, 0, 0, 0, 255, 0, 0, 0, 0, 0, 0, 0, 0, 0, 0, 0, 0, 0, 0, 0, 0, 0, 0, 0, 0, 0,
     0, 0, 0, 0, 0, 0, 0, 0, 0, 0, 0, 0, 0, 0, 0, 1, 0, 0, 0, 0, 0, 0, 0, 1, 0, 0, 0, 2, 0,
     0, 0, 1, 0, 0, 0, 1, 0, 0, 0, 0, 0, 0, 0, 9, 9, 9, 0, 205, 204, 204, 61, 0, 0, 0, 0,
     9, 9, 9, 0, 0, 0, 0, 0, 0, 0, 0, 0, 0, 0, 0, 0, 0, 0, 0, 0, 1, 2, 3, 0, 4, 5, 6, 1, 7,
     8, 9, 2, 0, 0, 0, 0, 0, 0, 0, 0, 9, 9, 9, 0, 0, 0, 0, 0, 0, 0, 0, 0, 0, 0, 0, 0, 0, 0,
     0, 0, 1, 2, 3, 0, 4, 5, 6, 1, 7, 8, 9, 2]"




section \<open>Auxiliary definitions for the statements\<close>

text \<open>
  The vertex the claim C1 words for an edge-list entry: \<open>v0\<close> of the edge for a
  positive entry, \<open>v1\<close> for a negative one. It follows the claim, not the code, and is
  used only to compare the two.
\<close>

definition claimedVertex :: "int \<times> int \<Rightarrow> int \<Rightarrow> int" where
  "claimedVertex edge edgeIndex = (case edge of (v0, v1) \<Rightarrow> if 0 < edgeIndex then v0 else v1)"

text \<open>
  What the polygon loop pushes for the edge-list position \<open>j\<close> when both lookups are
  in range (\<open>inTables\<close>): the vertex where the walk along the edge ends, \<open>v1\<close> (the
  field \<open>y\<close>) for an entry that is not negative, \<open>v0\<close> (the field \<open>x\<close>) for a
  negative one.
\<close>

definition walkEnd :: "int list \<Rightarrow> (int \<times> int) list \<Rightarrow> int \<Rightarrow> int" where
  "walkEnd ledges edges j =
     (let edgeIndex = ledges ! nat j; edge = edges ! nat \<bar>edgeIndex\<bar>
      in if edgeIndex < 0 then fst edge else snd edge)"

definition inTables :: "int list \<Rightarrow> (int \<times> int) list \<Rightarrow> int \<Rightarrow> bool" where
  "inTables ledges edges j =
     (0 \<le> j \<and> j < int (length ledges) \<and> nat \<bar>ledges ! nat j\<bar> < length edges)"



text \<open>
  The bytes of a group frame behind its 4-byte flag as the claim C4 lists them: the
  sub-frame count, two 4-byte bounding-box records, \<open>n\<close> intervals and \<open>n\<close>
  sub-frames of \<open>4 + 4 + 16\<close> header bytes and \<open>4 * vertexCount\<close> vertex bytes. It
  follows the claim and the sub-frame layout of \<^verbatim>\<open>parseFrame\<close>, and is used only to
  compare them with what the group branch of the code skips.
\<close>

definition claimedGroupBytes :: "int \<Rightarrow> int \<Rightarrow> int" where
  "claimedGroupBytes vertexCount n = 4 + 2 * 4 + 4 * n + n * ((4 + 4 + 16) + 4 * vertexCount)"

text \<open>The two uncaught exceptions, as opposed to an alert followed by \<^verbatim>\<open>return false\<close>.\<close>

definition thrown :: "error \<Rightarrow> bool" where
  "thrown e = (e = RangeError \<or> e = TypeError)"






section \<open>Properties of the level decoder\<close>

text \<open>
  Claim C8. A level buffer whose first four bytes, read as a little-endian signed
  32-bit integer, are not 29 is rejected: \<^verbatim>\<open>importMesh\<close> alerts, returns
  \<^verbatim>\<open>false\<close> and leaves \<open>meshes\<close> as it was, whatever follows the four bytes. No
  other magic, the value 844124994 of \<open>BSP2\<close> included, starts a decoding.
\<close>

theorem bsp_magic_rejected:
  assumes "toInt32 (uint b0 + 256 * uint b1 + 65536 * uint b2 + 16777216 * uint b3) \<noteq> 29"
  shows "bsp_importMesh (b0 # b1 # b2 # b3 # rest) meshes = (Inl (Alerted NotBSP), meshes)"
  using assms
  by (simp add: bsp_importMesh_def readInt32_def newBinaryReader_def inView_def
      getUint32_def getByte_def andThen_def)

theorem bsp_magic_rejected_witness:
  "toInt32 (uint (66 :: byte) + 256 * uint (83 :: byte) + 65536 * uint (80 :: byte)
     + 16777216 * uint (50 :: byte)) = 844124994
   \<and> bsp_importMesh [66, 83, 80, 50] (Some []) = (Inl (Alerted NotBSP), Some [])"
  using bsp_magic_rejected [of 66 83 80 50 "[]" "Some []"]
  by (simp add: toInt32_def)

text \<open>
  Claim C1, as the claim states it: a positive entry gives \<open>v0\<close> and a negative one
  \<open>v1\<close>. The code does the opposite. With the single edge \<open>(v0, v1) = (5, 7)\<close> at index
  1, the entries \<open>1, -1\<close> give the loop \<open>[7, 5]\<close> where the claim has \<open>[5, 7]\<close>.
\<close>

theorem polygon_sign_counterexample:
  "extractPolygon [1, - 1] [(0, 0), (5, 7)] 0 2 = Inr [7, 5]
   \<and> [claimedVertex (5, 7) 1, claimedVertex (5, 7) (- 1)] = [5, 7]"
  by (simp add: polygonVertex_def element_def andThen_def claimedVertex_def numeral_2_eq_2)

lemma polygonVertex_inTables:
  "inTables ledges edges j \<Longrightarrow> polygonVertex ledges edges j = Inr (walkEnd ledges edges j)"
  by (auto simp: inTables_def polygonVertex_def element_def walkEnd_def Let_def split: prod.splits)

text \<open>
  Claim C1, amended. For a face whose edge-list range and edge indices are in range,
  the loop of lines 319 to 324 returns a polygon with one vertex per entry
  (\<open>edgeCount\<close> of them), and entry \<open>k\<close> resolves to the end vertex of the walk along
  its edge: \<open>edge.y = v1\<close> when the entry is not negative, \<open>edge.x = v0\<close> when it
  is negative.
\<close>

theorem polygon_loop:
  assumes "\<forall>k<n. inTables ledges edges (start + int k)"
  shows "\<exists>polygon. extractPolygon ledges edges start n = Inr polygon \<and> length polygon = n
           \<and> (\<forall>k<n. polygon ! k = walkEnd ledges edges (start + int k))"
  using assms
proof (induction n arbitrary: start)
  case 0
  then show ?case by simp
next
  case (Suc n)
  have first: "inTables ledges edges start"
    using Suc.prems [rule_format, of 0] by simp
  have rest: "\<forall>k<n. inTables ledges edges ((start + 1) + int k)"
  proof (intro allI impI)
    fix k assume "k < n"
    then have "inTables ledges edges (start + int (Suc k))"
      using Suc.prems [rule_format, of "Suc k"] by simp
    then show "inTables ledges edges ((start + 1) + int k)" by (simp add: algebra_simps)
  qed
  from Suc.IH [OF rest] obtain polygon where p:
    "extractPolygon ledges edges (start + 1) n = Inr polygon" "length polygon = n"
    "\<forall>k<n. polygon ! k = walkEnd ledges edges ((start + 1) + int k)"
    by blast
  have "extractPolygon ledges edges start (Suc n) = Inr (walkEnd ledges edges start # polygon)"
    by (simp add: polygonVertex_inTables [OF first] p(1) andThen_def)
  moreover have "\<forall>k<Suc n. (walkEnd ledges edges start # polygon) ! k = walkEnd ledges edges (start + int k)"
  proof (intro allI impI)
    fix k assume k: "k < Suc n"
    show "(walkEnd ledges edges start # polygon) ! k = walkEnd ledges edges (start + int k)"
    proof (cases k)
      case 0 then show ?thesis by simp
    next
      case (Suc m)
      then have "m < n" using k by simp
      then show ?thesis using p(3) Suc by (simp add: algebra_simps)
    qed
  qed
  ultimately show ?case using p(2) by simp
qed

theorem polygon_loop_witness:
  "extractPolygon [3, - 2, 1] [(0, 0), (4, 5), (5, 6), (6, 4)] 0 3 = Inr [4, 5, 5]"
proof -
  have h: "\<forall>k<3. inTables [3, - 2, 1] [(0, 0), (4, 5), (5, 6), (6, 4)] (0 + int k)"
    by (simp add: inTables_def less_Suc_eq numeral_3_eq_3)
  from polygon_loop [OF h] obtain polygon where
    p: "extractPolygon [3, - 2, 1] [(0, 0), (4, 5), (5, 6), (6, 4)] 0 3 = Inr polygon"
    by blast
  then show ?thesis
    by (simp add: polygonVertex_def element_def andThen_def numeral_3_eq_3)
qed



subsection \<open>Indices and groups\<close>























section \<open>Properties of the model decoder\<close>

text \<open>
  Claim C10. The normal index of a frame vertex is a byte and is not checked against
  the 162 entries of \<open>anormals\<close>. The file \<open>mdl_one_triangle b\<close> is decoded when
  \<open>b\<close> is 161, the last entry; with 162 or 255 the lookup leaves the table and
  \<^verbatim>\<open>importMesh\<close> ends in the TypeError of reading an element of \<^verbatim>\<open>undefined\<close>.
\<close>

theorem normal_index_outside_table:
  "length anormals = 162
   \<and> fst (mdl_importMesh (mdl_one_triangle 161) (Some [])) = Inr True
   \<and> fst (mdl_importMesh (mdl_one_triangle 162) (Some [])) = Inl TypeError
   \<and> fst (mdl_importMesh (mdl_one_triangle 255) (Some [])) = Inl TypeError"
  by code_simp

text \<open>
  Claim C7. When the header is valid, announces at least one skin, and the group
  flag of the first skin record is not zero, the loop over the skins stops at that
  flag: \<^verbatim>\<open>importMesh\<close> alerts ("Skin 0 is a group skin"), returns
  \<^verbatim>\<open>false\<close> and leaves \<open>meshes\<close> as it was. Nothing behind the flag is read: the
  hypotheses speak of the header and the flag only, and \<open>mdl_group_skin\<close>, a file
  that ends with the flag, is rejected in this way.
\<close>

theorem group_skin_rejected:
  assumes "mdl_readHeader (newBinaryReader data) = Inr (header, r)"
    and "0 < numSkins header"
    and "readInt32 r = Inr (flag, r1)"
    and "flag \<noteq> 0"
  shows "readSkins header 0 (nat (numSkins header)) r = Inl (Alerted (GroupSkin 0))
    \<and> mdl_importMesh data meshes = (Inl (Alerted (GroupSkin 0)), meshes)"
proof -
  obtain k where k: "nat (numSkins header) = Suc k"
    using assms(2) by (cases "nat (numSkins header)") auto
  have skin: "readSkin header 0 r = Inl (Alerted (GroupSkin 0))"
    using assms(3,4) by (simp add: readSkin_def andThen_def)
  have skins: "readSkins header 0 (nat (numSkins header)) r = Inl (Alerted (GroupSkin 0))"
    by (simp add: k skin andThen_def)
  have "mdl_readTables (newBinaryReader data) = Inl (Alerted (GroupSkin 0))"
    by (simp add: mdl_readTables_def assms(1) skins andThen_def)
  then show ?thesis
    using skins by (simp add: mdl_importMesh_def)
qed

theorem group_skin_rejected_witness:
  "length mdl_group_skin = 88
   \<and> mdl_importMesh mdl_group_skin (Some []) = (Inl (Alerted (GroupSkin 0)), Some [])"
proof -
  let ?h = "\<lparr>scale = (Fin 1, Fin 1, Fin 1), translate = (Fin 0, Fin 0, Fin 0), numSkins = 1,
             skinWidth = 4, skinHeight = 4, numVertices = 3, numTriangles = 1, numFrames = 1\<rparr>"
  have h: "mdl_readHeader (newBinaryReader mdl_group_skin)
             = Inr (?h, \<lparr>arrayBuffer = mdl_group_skin, byteOffset = 84\<rparr>)"
    by code_simp
  have g: "readInt32 \<lparr>arrayBuffer = mdl_group_skin, byteOffset = 84\<rparr>
             = Inr (1, \<lparr>arrayBuffer = mdl_group_skin, byteOffset = 88\<rparr>)"
    by code_simp
  have n: "0 < numSkins ?h" by simp
  have l: "length mdl_group_skin = 88" by code_simp
  show ?thesis
    using group_skin_rejected [OF h n g, of "Some []"] l by simp
qed





text \<open>The table of lines 172 to 176 holds the raw texel coordinates of every vertex.\<close>

lemma readUVs_shape:
  "readUVs n r = Inr ((onSeam, uvs), r') \<Longrightarrow>
     length onSeam = n \<and> length uvs = 2 * n
     \<and> (\<forall>v<n. \<exists>rawS rawT. uvs ! (2 * v) = Fin (of_int rawS) \<and> uvs ! (2 * v + 1) = Fin (of_int rawT))"
proof (induction n arbitrary: r onSeam uvs)
  case 0
  then show ?case by simp
next
  case (Suc n)
  from Suc.prems obtain seam r1 s r2 t r3 onSeam1 uvs1 where
    rest: "readUVs n r3 = Inr ((onSeam1, uvs1), r')"
    and os: "onSeam = toUint32 seam # onSeam1"
    and us: "uvs = Fin (of_int s) # Fin (of_int t) # uvs1"
    by (auto simp: andThen_def split: sum.splits prod.splits)
  have ih: "length onSeam1 = n" "length uvs1 = 2 * n"
    "\<forall>v<n. \<exists>rawS rawT. uvs1 ! (2 * v) = Fin (of_int rawS) \<and> uvs1 ! (2 * v + 1) = Fin (of_int rawT)"
    using Suc.IH [OF rest] by simp_all
  have "\<exists>rawS rawT. uvs ! (2 * v) = Fin (of_int rawS) \<and> uvs ! (2 * v + 1) = Fin (of_int rawT)"
    if "v < Suc n" for v
  proof (cases v)
    case 0
    then show ?thesis by (auto simp: us)
  next
    case (Suc w)
    then have "w < n" using that by simp
    then show ?thesis using ih(3) Suc by (simp add: us)
  qed
  then show ?case using ih(1,2) by (simp add: os us)
qed





subsection \<open>The cursor in the frame records\<close>

lemma readUint8_offset: "readUint8 r = Inr (x, r') \<Longrightarrow> byteOffset r' = byteOffset r + 1"
  by (auto simp: readUint8_def skipBytes_def split: if_splits)

lemma readInt32_offset: "readInt32 r = Inr (x, r') \<Longrightarrow> byteOffset r' = byteOffset r + 4"
  by (auto simp: readInt32_def skipBytes_def split: if_splits)

lemma readFrameVertices_offset:
  "readFrameVertices header n r = Inr (frame, r') \<Longrightarrow> byteOffset r' = byteOffset r + 4 * int n"
proof (induction n arbitrary: r frame)
  case 0
  then show ?case by simp
next
  case (Suc n)
  from Suc.prems obtain x r1 y r2 z r3 k r4 frame' where
    "readUint8 r = Inr (x, r1)" "readUint8 r1 = Inr (y, r2)" "readUint8 r2 = Inr (z, r3)"
    "readUint8 r3 = Inr (k, r4)" "readFrameVertices header n r4 = Inr (frame', r')"
    by (auto simp: andThen_def split: sum.splits if_splits prod.splits)
  then show ?case
    using Suc.IH [of r4 frame'] by (simp add: readUint8_offset)
qed

lemma parseFrame_offset:
  "parseFrame r header = Inr (frame, r') \<Longrightarrow>
     byteOffset r' = byteOffset r + (2 * 4 + 16) + 4 * int (nat (numVertices header))"
  using readFrameVertices_offset [of header "nat (numVertices header)" "skipBytes r (2 * 4 + 16)" frame r']
  by (simp add: parseFrame_def skipBytes_def)

lemma parseGroupFrames_offset:
  "parseGroupFrames header n r = Inr r' \<Longrightarrow>
     byteOffset r' = byteOffset r + int n * ((2 * 4 + 16) + 4 * int (nat (numVertices header)))"
proof (induction n arbitrary: r)
  case 0
  then show ?case by simp
next
  case (Suc n)
  from Suc.prems obtain frame r1 where
    a: "parseFrame r header = Inr (frame, r1)" and b: "parseGroupFrames header n r1 = Inr r'"
    by (auto simp: andThen_def split: sum.splits prod.splits)
  show ?case
    using Suc.IH [OF b] parseFrame_offset [OF a] by (simp add: algebra_simps)
qed

text \<open>
  Claim C4. The group branch does not consume the bytes the record occupies. Behind
  the flag and the sub-frame count it skips \<open>3 * 4\<close> bytes for the two bounding-box
  records (\<^verbatim>\<open>parseFrame\<close> skips \<open>2 * 4\<close> for the same two records of a frame), then
  the intervals and the sub-frames. Whenever a group record with \<open>n \<ge> 0\<close> sub-frames
  is read without an exception, it yields no snapshot and the cursor ends 4 bytes
  past the start of the next record.
\<close>

theorem group_frame_cursor:
  assumes "readInt32 r = Inr (type, r1)" and "type \<noteq> 0"
    and "readInt32 r1 = Inr (n, r2)" and "0 \<le> n" and "0 \<le> numVertices header"
    and "readFrameRecord header onSeam uvs indices faceFront r = Inr (result, r')"
  shows "result = None
    \<and> byteOffset r' = byteOffset r + 4 + (4 + 3 * 4 + 4 * n + n * ((2 * 4 + 16) + 4 * numVertices header))
    \<and> byteOffset r' = (byteOffset r + 4 + claimedGroupBytes (numVertices header) n) + 4"
proof -
  from assms(1,2,3,6) obtain r3 where
    g: "parseGroupFrames header (nat n) (skipBytes (skipBytes r2 (3 * 4)) (4 * n)) = Inr r3"
    and res: "result = None" "r' = r3"
    by (auto simp: readFrameRecord_def andThen_def split: sum.splits)
  have "byteOffset r' = byteOffset r2 + 3 * 4 + 4 * n + n * ((2 * 4 + 16) + 4 * numVertices header)"
    using parseGroupFrames_offset [OF g] assms(4,5) res(2) by (simp add: skipBytes_def)
  then have "byteOffset r' = byteOffset r + 4 + (4 + 3 * 4 + 4 * n + n * ((2 * 4 + 16) + 4 * numVertices header))"
    using readInt32_offset [OF assms(1)] readInt32_offset [OF assms(3)] by simp
  then show ?thesis
    using res(1) by (simp add: claimedGroupBytes_def algebra_simps)
qed

theorem group_frame_cursor_witness:
  "readFrameRecord
     \<lparr>scale = (Fin 1, Fin 1, Fin 1), translate = (Fin 0, Fin 0, Fin 0), numSkins = 1, skinWidth = 1,
      skinHeight = 1, numVertices = 3, numTriangles = 1, numFrames = 2\<rparr>
     [0, 0, 0] [Fin 0, Fin 0, Fin 0, Fin 0, Fin 0, Fin 0] [0, 1, 2] [1]
     \<lparr>arrayBuffer = mdl_group_then_single, byteOffset = 141\<rparr>
     = Inr (None, \<lparr>arrayBuffer = mdl_group_then_single, byteOffset = 201\<rparr>)
   \<and> 141 + 4 + claimedGroupBytes 3 1 = 197"
proof -
  let ?h = "\<lparr>scale = (Fin 1, Fin 1, Fin 1), translate = (Fin 0, Fin 0, Fin 0), numSkins = 1, skinWidth = 1,
      skinHeight = 1, numVertices = 3, numTriangles = 1, numFrames = 2\<rparr>"
  have a: "readInt32 \<lparr>arrayBuffer = mdl_group_then_single, byteOffset = 141\<rparr>
             = Inr (1, \<lparr>arrayBuffer = mdl_group_then_single, byteOffset = 145\<rparr>)"
    by code_simp
  have b: "readInt32 \<lparr>arrayBuffer = mdl_group_then_single, byteOffset = 145\<rparr>
             = Inr (1, \<lparr>arrayBuffer = mdl_group_then_single, byteOffset = 149\<rparr>)"
    by code_simp
  have c: "readFrameRecord ?h [0, 0, 0] [Fin 0, Fin 0, Fin 0, Fin 0, Fin 0, Fin 0] [0, 1, 2] [1]
             \<lparr>arrayBuffer = mdl_group_then_single, byteOffset = 141\<rparr>
             = Inr (None, \<lparr>arrayBuffer = mdl_group_then_single, byteOffset = 201\<rparr>)"
    by code_simp
  show ?thesis
    using group_frame_cursor [OF a _ b _ _ c] c by (simp add: claimedGroupBytes_def)
qed

text \<open>
  Every snapshot that is produced has three position floats, three normal floats and
  two texture coordinates per triangle corner.
\<close>

lemma length_concat_chunks:
  "(\<And>x. x \<in> set xs \<Longrightarrow> length (f x) = m) \<Longrightarrow> length (concat (map f xs)) = m * length xs"
  by (induction xs) simp_all

lemma expandFrame_lengths:
  "length (targetPositions (expandFrame header onSeam uvs indices faceFront frame))
     = 3 * 3 * nat (numTriangles header)
   \<and> length (targetNormals (expandFrame header onSeam uvs indices faceFront frame))
     = 3 * 3 * nat (numTriangles header)
   \<and> length (targetUVs (expandFrame header onSeam uvs indices faceFront frame))
     = 2 * 3 * nat (numTriangles header)"
  by (simp add: expandFrame_def Let_def length_concat_chunks cornerFloats_def cornerUV_def)

text \<open>
  Claim C6. The file \<open>mdl_group_then_single\<close> holds one group frame and one single
  frame, so one snapshot is due. The group branch leaves the cursor 4 bytes late,
  the next flag is read from the bounding box of the single frame, and the read of
  its vertices runs over the end of the buffer: \<^verbatim>\<open>importMesh\<close> throws a RangeError
  and the mesh has no morph target.
\<close>

theorem mdl_well_formed_group_then_single:
  "mdl_importMesh mdl_group_then_single (Some [])
     = (Inl RangeError,
        Some [\<lparr>meshIndices = [0, 1, 2],
               diffuseTexture = Some \<lparr>textureData = [159, 91, 83], textureWidth = 1, textureHeight = 1\<rparr>,
               morphTargets = []\<rparr>])"
  by code_simp


subsection \<open>Failures and the caller's array\<close>

lemma readUint8_error: "readUint8 r = Inl e \<Longrightarrow> e = RangeError"
  by (auto simp: readUint8_def split: if_splits)

lemma readInt32_error: "readInt32 r = Inl e \<Longrightarrow> e = RangeError"
  by (auto simp: readInt32_def split: if_splits)

lemma readFrameVertices_error: "readFrameVertices header n r = Inl e \<Longrightarrow> thrown e"
proof (induction n arbitrary: r)
  case 0
  then show ?case by simp
next
  case (Suc n)
  then show ?case
    by (auto simp: andThen_def thrown_def split: sum.splits if_splits prod.splits
        dest: readUint8_error)
qed

lemma parseFrame_error: "parseFrame r header = Inl e \<Longrightarrow> thrown e"
  by (simp add: parseFrame_def readFrameVertices_error)

lemma parseGroupFrames_error: "parseGroupFrames header n r = Inl e \<Longrightarrow> thrown e"
proof (induction n arbitrary: r)
  case 0
  then show ?case by simp
next
  case (Suc n)
  then show ?case
    by (auto simp: andThen_def split: sum.splits prod.splits dest: parseFrame_error)
qed

lemma readFrameRecord_error:
  "readFrameRecord header onSeam uvs indices faceFront r = Inl e \<Longrightarrow> thrown e"
  by (auto simp: readFrameRecord_def andThen_def thrown_def split: sum.splits if_splits prod.splits
      dest: readInt32_error parseFrame_error parseGroupFrames_error)

lemma readFrames_error:
  "readFrames header onSeam uvs indices faceFront n r targets = (targets', Some e) \<Longrightarrow> thrown e"
proof (induction n arbitrary: r targets)
  case 0
  then show ?case by simp
next
  case (Suc n)
  then show ?case
    by (auto split: sum.splits option.splits prod.splits dest: readFrameRecord_error)
qed

text \<open>
  Claim C9, as the claim states it, fails for an out-of-bounds read in the frame
  records: line 257 has pushed the mesh by then. The first 141 bytes of
  \<open>mdl_group_then_single\<close> announce two frames and hold none; the call throws a
  RangeError and \<open>meshes\<close>, empty before, holds a mesh.
\<close>

theorem mdl_truncated_frames_counterexample:
  "mdl_importMesh (take 141 mdl_group_then_single) (Some [])
     = (Inl RangeError,
        Some [\<lparr>meshIndices = [0, 1, 2],
               diffuseTexture = Some \<lparr>textureData = [159, 91, 83], textureWidth = 1, textureHeight = 1\<rparr>,
               morphTargets = []\<rparr>])"
  by code_simp

text \<open>
  Claim C9, amended. Let \<^verbatim>\<open>importMesh\<close> fail with \<open>e\<close>. If the failure arises while the
  header, the skins, the texture coordinates or the triangles are read (a bad magic
  or version, a group skin, a read outside the buffer, a negative count), the
  caller gets that failure and \<open>meshes\<close> is unchanged. Otherwise the failure is an
  exception, never an alert: the TypeError of pushing to \<open>meshes\<close> when it is
  \<^verbatim>\<open>null\<close>, or an exception in the frame records, and then \<open>meshes\<close> has got one
  more element, the mesh with the morph targets of the frames decoded so far. In
  particular every failure that is not an exception leaves \<open>meshes\<close> unchanged.
\<close>

theorem mdl_failure_leaves_meshes:
  assumes "mdl_importMesh data meshes = (Inl e, meshes')"
  shows "(case mdl_readTables (newBinaryReader data) of
            Inl e' \<Rightarrow> e' = e \<and> meshes' = meshes
          | Inr (t, r) \<Rightarrow>
              thrown e \<and>
              (case meshes of
                 None \<Rightarrow> meshes' = None
               | Some ms \<Rightarrow>
                   meshes' = Some (ms @ [\<lparr>meshIndices = map int [0 ..< 3 * nat (numTriangles (mdlHeader t))],
                       diffuseTexture = (case mdlTextures t of [] \<Rightarrow> None | x # _ \<Rightarrow> Some x),
                       morphTargets = fst (readFrames (mdlHeader t) (mdlOnSeam t) (mdlUVs t) (mdlIndices t)
                         (mdlFaceFront t) (nat (numFrames (mdlHeader t))) r [])\<rparr>])))
    \<and> (\<not> thrown e \<longrightarrow> meshes' = meshes)"
proof (cases "mdl_readTables (newBinaryReader data)")
  case (Inl e')
  then show ?thesis using assms by (simp add: mdl_importMesh_def)
next
  case (Inr p)
  obtain t r where p: "p = (t, r)" by (cases p)
  show ?thesis
  proof (cases meshes)
    case None
    then show ?thesis using assms Inr p by (auto simp: mdl_importMesh_def thrown_def)
  next
    case (Some ms)
    obtain targets err where f: "readFrames (mdlHeader t) (mdlOnSeam t) (mdlUVs t) (mdlIndices t)
        (mdlFaceFront t) (nat (numFrames (mdlHeader t))) r [] = (targets, err)"
      by (cases "readFrames (mdlHeader t) (mdlOnSeam t) (mdlUVs t) (mdlIndices t)
        (mdlFaceFront t) (nat (numFrames (mdlHeader t))) r []")
    from assms Inr p Some f have e: "err = Some e"
      by (auto simp: mdl_importMesh_def Let_def split: option.splits)
    have "thrown e" using readFrames_error f e by blast
    then show ?thesis
      using assms Inr p Some f e by (auto simp: mdl_importMesh_def Let_def)
  qed
qed

theorem mdl_failure_leaves_meshes_witness:
  "mdl_importMesh [73, 68, 80, 79, 7, 0, 0, 0] (Some []) = (Inl (Alerted NotMDL), Some [])
   \<and> mdl_readTables (newBinaryReader [73, 68, 80, 79, 7, 0, 0, 0]) = Inl (Alerted NotMDL)"
proof -
  have h: "mdl_importMesh [73, 68, 80, 79, 7, 0, 0, 0] (Some []) = (Inl (Alerted NotMDL), Some [])"
    by code_simp
  show ?thesis
    using mdl_failure_leaves_meshes [OF h] h by (simp split: sum.splits)
qed


end
